theory Spec2Isabelle
  imports Complex_Main "HOL-Library.AList" "HOL-Library.Sublist" "HOL-Library.Log_Nat"
begin

section \<open>Python values, exceptions and the HTTP exchange\<close>

text \<open>
  Every adapter module under \<open>src/servers/\<close> is a set of tool functions that build one HTTP
  request from their parameters, hand it to an \<open>httpx\<close> client, and return the decoded JSON
  body or a reshaping of it.  The embedding keeps that shape:
  \<^item> a Python value that travels in a payload or comes back from \<open>response.json()\<close> is a
    \<open>pyval\<close>;
  \<^item> a \<open>dict\<close> is an association list with unique keys in insertion order; \<open>d[k] = v\<close> is
    \<open>AList.update k v d\<close> (replace in place, else append), \<open>k in d\<close> and \<open>d.get(k)\<close> read
    \<open>map_of d k\<close>;
  \<^item> an exception is a value of \<open>pyerror\<close>, and a function that can raise returns
    \<open>pyerror + 'a\<close>;
  \<^item> the network is a parameter \<open>upstream\<close> that answers a request descriptor with an
    exception (time-out, connection failure) or a response; a tool returns the list of requests
    it handed to the HTTP client together with its outcome, so that "no request was issued"
    is the statement that this list is empty.
\<close>

text \<open>
  A Python \<open>float\<close> is an IEEE 754 binary64 number.  A finite one is represented by its exact
  rational value; the sign of zero is not represented (\<open>-0.0 == 0.0\<close> in Python).
\<close>

datatype pyfloat = Finite rat | PosInf | NegInf | NaN

datatype pyval =
    PNone
  | PBool bool
  | PInt int
  | PFloat pyfloat
  | PStr string
  | PList "pyval list"
  | PDict "(string \<times> pyval) list"

type_synonym pydict = "(string \<times> pyval) list"

datatype pyerror =
    ValueError string
  | TypeError
  | KeyError string
  | IndexError
  | AttributeError
  | OverflowError
  | JSONDecodeError
  | TransportFailure
  | HTTPStatusError nat

datatype http_method = GET | POST | PUT | PATCH | DELETE

text \<open>
  The request descriptor: what a tool passes to \<open>client.get\<close>, \<open>client.post\<close>,
  \<open>client.put\<close>, \<open>client.patch\<close> or \<open>client.delete\<close>: the verb, the URL, then the
  keyword arguments \<open>headers\<close>, \<open>auth\<close>, \<open>params\<close> and \<open>json\<close> (\<open>None\<close> when the call
  does not pass them).  A header value is optional because several modules interpolate or pass
  an unset environment variable.
\<close>

datatype request = Request
  (req_method: http_method)
  (req_url: string)
  (req_headers: "(string \<times> string option) list")
  (req_auth: "(string \<times> string option) option")
  (req_params: "pydict option")
  (req_json: "pyval option")

datatype response = Response
  (status_code: nat)
  (json_body: "pyerror + pyval")

type_synonym transport = "request \<Rightarrow> pyerror + response"

type_synonym 'a outcome = "request list \<times> (pyerror + 'a)"

definition is_success :: "response \<Rightarrow> bool" where
  "is_success r = (200 \<le> status_code r \<and> status_code r < 300)"

text \<open>
  \<open>response = await client.<verb>(...); response.raise_for_status(); response.json()\<close>:
  one request is handed to the client; a transport exception, a status outside 2xx and an
  undecodable body are the three ways it fails.
\<close>

definition send :: "transport \<Rightarrow> request \<Rightarrow> pyval outcome" where
  "send upstream rq =
     ([rq],
      case upstream rq of
        Inl e \<Rightarrow> Inl e
      | Inr resp \<Rightarrow>
          if is_success resp then json_body resp
          else Inl (HTTPStatusError (status_code resp)))"

text \<open>An exception raised while the request is still being assembled: nothing was sent.\<close>

definition raise :: "pyerror \<Rightarrow> 'a outcome" where
  "raise e = ([], Inl e)"

subsection \<open>Truthiness and string helpers\<close>

text \<open>
  \<open>if x:\<close> on an \<open>Optional[str]\<close>, \<open>Optional[int]\<close> or \<open>Optional[List[...]]\<close> parameter:
  \<open>None\<close>, the empty string, zero and the empty list are all falsy.
\<close>

definition truthy_str :: "string option \<Rightarrow> bool" where
  "truthy_str x = (case x of None \<Rightarrow> False | Some s \<Rightarrow> s \<noteq> [])"


definition truthy_list :: "'a list option \<Rightarrow> bool" where
  "truthy_list x = (case x of None \<Rightarrow> False | Some xs \<Rightarrow> xs \<noteq> [])"

text \<open>\<open>str(x)\<close> inside an f-string for an environment value: an unset one prints as \<open>None\<close>.\<close>

definition str_of_env :: "string option \<Rightarrow> string" where
  "str_of_env x = (case x of None \<Rightarrow> ''None'' | Some s \<Rightarrow> s)"

text \<open>\<open>s.split(c)\<close> for a one-character separator: the result is never empty.\<close>

fun split_char :: "char \<Rightarrow> string \<Rightarrow> string list" where
  "split_char c [] = [[]]"
| "split_char c (x # xs) =
     (if x = c then [] # split_char c xs
      else (case split_char c xs of
              [] \<Rightarrow> [[x]]
            | w # ws \<Rightarrow> (x # w) # ws))"

text \<open>\<open>xs[-1]\<close>: the last element, \<open>IndexError\<close> on an empty list.\<close>

definition py_last :: "'a list \<Rightarrow> pyerror + 'a" where
  "py_last xs = (if xs = [] then Inl IndexError else Inr (last xs))"

section \<open>Mailchimp: the data-center-derived base URL\<close>

text \<open>
  \<open>src/servers/mailchimp/server.py\<close>, \<open>get_base_url\<close>.  \<open>API_KEY\<close> is the value of
  \<open>os.getenv("MAILCHIMP_API_KEY")\<close>, \<open>None\<close> when unset.  The module raises the built-in
  \<open>ValueError\<close>; the specification's taxonomy calls this kind of failure a
  ConfigurationError.
\<close>

definition mailchimp_key_error :: string where
  "mailchimp_key_error =
     ''Invalid MAILCHIMP_API_KEY format. Expected format: key-dc (e.g., abc123-us1)''"

definition get_base_url :: "string option \<Rightarrow> pyerror + string" where
  "get_base_url API_KEY =
     (case API_KEY of
        None \<Rightarrow> Inl (ValueError mailchimp_key_error)
      | Some key \<Rightarrow>
          if key = [] \<or> CHR ''-'' \<notin> set key then Inl (ValueError mailchimp_key_error)
          else (case py_last (split_char CHR ''-'' key) of
                  Inl e \<Rightarrow> Inl e
                | Inr dc \<Rightarrow> Inr (''https://'' @ dc @ ''.api.mailchimp.com/3.0'')))"

definition get_auth :: "string option \<Rightarrow> string \<times> string option" where
  "get_auth API_KEY = (''anystring'', API_KEY)"

text \<open>
  \<open>list_audiences(count, offset)\<close>: the URL f-string calls \<open>get_base_url()\<close> while the
  arguments of \<open>client.get\<close> are evaluated, so its exception leaves before the client is called.
\<close>

definition list_audiences :: "transport \<Rightarrow> string option \<Rightarrow> int \<Rightarrow> int \<Rightarrow> pyval outcome" where
  "list_audiences upstream API_KEY count offset =
     (case get_base_url API_KEY of
        Inl e \<Rightarrow> raise e
      | Inr base \<Rightarrow>
          send upstream
            (Request GET (base @ ''/lists'')
               [] (Some (get_auth API_KEY)) (Some [(''count'', PInt count), (''offset'', PInt offset)])
               None))"

section \<open>Airtable: records\<close>

text \<open>
  \<open>src/servers/airtable/server.py\<close>.  \<open>AIRTABLE_ACCESS_TOKEN\<close> is read from the environment
  when the module is loaded; \<open>get_headers\<close> raises when it is unset or empty.
\<close>

definition AIRTABLE_BASE_URL :: string where
  "AIRTABLE_BASE_URL = ''https://api.airtable.com/v0''"

definition airtable_get_headers :: "string option \<Rightarrow> pyerror + (string \<times> string option) list" where
  "airtable_get_headers AIRTABLE_ACCESS_TOKEN =
     (if \<not> truthy_str AIRTABLE_ACCESS_TOKEN
      then Inl (ValueError ''AIRTABLE_ACCESS_TOKEN environment variable is required'')
      else Inr [(''Authorization'', Some (''Bearer '' @ str_of_env AIRTABLE_ACCESS_TOKEN)),
                (''Content-Type'', Some ''application/json'')])"

text \<open>\<open>str(i)\<close> for the non-negative index that \<open>enumerate\<close> produces.\<close>

function str_nat :: "nat \<Rightarrow> string" where
  "str_nat n =
     (if n < 10 then [''0123456789'' ! n]
      else str_nat (n div 10) @ [''0123456789'' ! (n mod 10)])"
  by pat_completeness auto
termination
  by (relation "measure id") auto

declare str_nat.simps [simp del]

text \<open>\<open>for field in fields: params[f"fields[]"] = field\<close>: every round assigns the same key.\<close>

fun fields_params :: "string list \<Rightarrow> pydict \<Rightarrow> pydict" where
  "fields_params [] params = params"
| "fields_params (field # rest) params =
     fields_params rest (AList.update ''fields[]'' (PStr field) params)"

text \<open>
  \<open>for i, sort_item in enumerate(sort)\<close>: \<open>sort_item["field"]\<close> raises \<open>KeyError\<close> when the
  key is missing, \<open>sort_item.get("direction", "asc")\<close> does not.
\<close>

fun sort_params :: "nat \<Rightarrow> (string \<times> string) list list \<Rightarrow> pydict \<Rightarrow> pyerror + pydict" where
  "sort_params i [] params = Inr params"
| "sort_params i (sort_item # rest) params =
     (case map_of sort_item ''field'' of
        None \<Rightarrow> Inl (KeyError ''field'')
      | Some f \<Rightarrow>
          sort_params (Suc i) rest
            (AList.update (''sort['' @ str_nat i @ ''][direction]'')
               (PStr (case map_of sort_item ''direction'' of None \<Rightarrow> ''asc'' | Some d \<Rightarrow> d))
               (AList.update (''sort['' @ str_nat i @ ''][field]'') (PStr f) params)))"

text \<open>The idiom \<open>if x: params[k] = x\<close> for a string and for an integer parameter.\<close>

definition set_if_str :: "string \<Rightarrow> string option \<Rightarrow> pydict \<Rightarrow> pydict" where
  "set_if_str k x params =
     (case x of None \<Rightarrow> params
      | Some s \<Rightarrow> if s \<noteq> [] then AList.update k (PStr s) params else params)"

definition set_if_int :: "string \<Rightarrow> int option \<Rightarrow> pydict \<Rightarrow> pydict" where
  "set_if_int k x params =
     (case x of None \<Rightarrow> params
      | Some n \<Rightarrow> if n \<noteq> 0 then AList.update k (PInt n) params else params)"

text \<open>The query parameters of \<open>list_records\<close>, in the order the source assigns them.\<close>

definition list_records_params ::
  "string list option \<Rightarrow> string option \<Rightarrow> int option \<Rightarrow> int option \<Rightarrow>
   (string \<times> string) list list option \<Rightarrow> string option \<Rightarrow> string option \<Rightarrow> pyerror + pydict" where
  "list_records_params fields filter_by_formula max_records page_size sort' view offset =
     (let params = [];
          params = (case fields of None \<Rightarrow> params
                    | Some fs \<Rightarrow> if fs \<noteq> [] then fields_params fs params else params);
          params = set_if_str ''filterByFormula'' filter_by_formula params;
          params = set_if_int ''maxRecords'' max_records params;
          params = set_if_int ''pageSize'' page_size params;
          params = set_if_str ''view'' view params;
          params = set_if_str ''offset'' offset params
      in case sort' of None \<Rightarrow> Inr params
         | Some items \<Rightarrow> if items \<noteq> [] then sort_params 0 items params else Inr params)"

definition list_records ::
  "transport \<Rightarrow> string option \<Rightarrow> string \<Rightarrow> string \<Rightarrow>
   string list option \<Rightarrow> string option \<Rightarrow> int option \<Rightarrow> int option \<Rightarrow>
   (string \<times> string) list list option \<Rightarrow> string option \<Rightarrow> string option \<Rightarrow> pyval outcome" where
  "list_records upstream AIRTABLE_ACCESS_TOKEN base_id table_id_or_name
       fields filter_by_formula max_records page_size sort' view offset =
     (case list_records_params fields filter_by_formula max_records page_size sort' view offset of
        Inl e \<Rightarrow> raise e
      | Inr params \<Rightarrow>
          (case airtable_get_headers AIRTABLE_ACCESS_TOKEN of
             Inl e \<Rightarrow> raise e
           | Inr hdrs \<Rightarrow>
               send upstream
                 (Request GET (AIRTABLE_BASE_URL @ ''/'' @ base_id @ ''/'' @ table_id_or_name)
                    hdrs None (Some params)
                    None)))"



text \<open>\<open>replace_all: bool = False\<close>, the default of \<open>update_record\<close> and \<open>bulk_update_records\<close>.\<close>

definition replace_all_default :: bool where
  "replace_all_default = False"

definition update_record ::
  "transport \<Rightarrow> string option \<Rightarrow> string \<Rightarrow> string \<Rightarrow> string \<Rightarrow> pydict \<Rightarrow> bool \<Rightarrow> pyval outcome" where
  "update_record upstream AIRTABLE_ACCESS_TOKEN base_id table_id_or_name record_id fields replace_all =
     (let data = PDict [(''fields'', PDict fields)];
          target = AIRTABLE_BASE_URL @ ''/'' @ base_id @ ''/'' @ table_id_or_name @ ''/'' @ record_id
      in if replace_all then
           (case airtable_get_headers AIRTABLE_ACCESS_TOKEN of
              Inl e \<Rightarrow> raise e
            | Inr hdrs \<Rightarrow>
                send upstream
                  (Request PUT target
                     hdrs None None
                     (Some data)))
         else
           (case airtable_get_headers AIRTABLE_ACCESS_TOKEN of
              Inl e \<Rightarrow> raise e
            | Inr hdrs \<Rightarrow>
                send upstream
                  (Request PATCH target
                     hdrs None None
                     (Some data))))"

text \<open>\<open>{"fields": r} if "fields" not in r else r\<close>\<close>

definition format_record :: "pydict \<Rightarrow> pydict" where
  "format_record r = (if map_of r ''fields'' = None then [(''fields'', PDict r)] else r)"

definition bulk_create_records ::
  "transport \<Rightarrow> string option \<Rightarrow> string \<Rightarrow> string \<Rightarrow> pydict list \<Rightarrow> pyval outcome" where
  "bulk_create_records upstream AIRTABLE_ACCESS_TOKEN base_id table_id_or_name records =
     (let formatted_records = map format_record records;
          data = PDict [(''records'', PList (map PDict (take 10 formatted_records)))]
      in case airtable_get_headers AIRTABLE_ACCESS_TOKEN of
           Inl e \<Rightarrow> raise e
         | Inr hdrs \<Rightarrow>
             send upstream
               (Request POST (AIRTABLE_BASE_URL @ ''/'' @ base_id @ ''/'' @ table_id_or_name)
                  hdrs None None
                  (Some data)))"

definition bulk_update_records ::
  "transport \<Rightarrow> string option \<Rightarrow> string \<Rightarrow> string \<Rightarrow> pydict list \<Rightarrow> bool \<Rightarrow> pyval outcome" where
  "bulk_update_records upstream AIRTABLE_ACCESS_TOKEN base_id table_id_or_name records replace_all =
     (let data = PDict [(''records'', PList (map PDict (take 10 records)))];
          target = AIRTABLE_BASE_URL @ ''/'' @ base_id @ ''/'' @ table_id_or_name
      in if replace_all then
           (case airtable_get_headers AIRTABLE_ACCESS_TOKEN of
              Inl e \<Rightarrow> raise e
            | Inr hdrs \<Rightarrow>
                send upstream
                  (Request PUT target
                     hdrs None None
                     (Some data)))
         else
           (case airtable_get_headers AIRTABLE_ACCESS_TOKEN of
              Inl e \<Rightarrow> raise e
            | Inr hdrs \<Rightarrow>
                send upstream
                  (Request PATCH target
                     hdrs None None
                     (Some data))))"

text \<open>The records that a request carries in its JSON body under the key \<open>records\<close>.\<close>

definition sent_records :: "request \<Rightarrow> pyval list" where
  "sent_records rq =
     (case req_json rq of
        Some (PDict d) \<Rightarrow> (case map_of d ''records'' of Some (PList rs) \<Rightarrow> rs | _ \<Rightarrow> [])
      | _ \<Rightarrow> [])"

section \<open>Todoist: updating a task\<close>

text \<open>
  \<open>src/servers/todoist/server.py\<close>, \<open>update_task\<close>.  \<open>get_headers\<close> interpolates
  \<open>API_TOKEN\<close> without testing it.
\<close>

definition TODOIST_BASE_URL :: string where
  "TODOIST_BASE_URL = ''https://api.todoist.com/rest/v2''"

definition todoist_get_headers :: "string option \<Rightarrow> (string \<times> string option) list" where
  "todoist_get_headers API_TOKEN =
     [(''Authorization'', Some (''Bearer '' @ str_of_env API_TOKEN)),
      (''Content-Type'', Some ''application/json'')]"

definition set_if_labels :: "string \<Rightarrow> string list option \<Rightarrow> pydict \<Rightarrow> pydict" where
  "set_if_labels k x payload =
     (case x of None \<Rightarrow> payload
      | Some ls \<Rightarrow> if ls \<noteq> [] then AList.update k (PList (map PStr ls)) payload else payload)"

definition update_task_payload ::
  "string option \<Rightarrow> string option \<Rightarrow> string list option \<Rightarrow> int option \<Rightarrow>
   string option \<Rightarrow> string option \<Rightarrow> string option \<Rightarrow> string \<Rightarrow> string option \<Rightarrow> pydict" where
  "update_task_payload content description labels priority due_string due_date due_datetime
       due_lang assignee_id =
     (let payload = [(''due_lang'', PStr due_lang)];
          payload = set_if_str ''content'' content payload;
          payload = set_if_str ''description'' description payload;
          payload = set_if_labels ''labels'' labels payload;
          payload = set_if_int ''priority'' priority payload;
          payload = set_if_str ''due_string'' due_string payload;
          payload = set_if_str ''due_date'' due_date payload;
          payload = set_if_str ''due_datetime'' due_datetime payload;
          payload = set_if_str ''assignee_id'' assignee_id payload
      in payload)"

definition update_task ::
  "transport \<Rightarrow> string option \<Rightarrow> string \<Rightarrow> string option \<Rightarrow> string option \<Rightarrow>
   string list option \<Rightarrow> int option \<Rightarrow> string option \<Rightarrow> string option \<Rightarrow> string option \<Rightarrow>
   string \<Rightarrow> string option \<Rightarrow> pyval outcome" where
  "update_task upstream API_TOKEN task_id content description labels priority due_string due_date
       due_datetime due_lang assignee_id =
     send upstream
       (Request POST (TODOIST_BASE_URL @ ''/tasks/'' @ task_id)
          (todoist_get_headers API_TOKEN) None None
          (Some (PDict (update_task_payload content description labels priority
                                    due_string due_date due_datetime due_lang assignee_id))))"



section \<open>Python floats and operators on JSON values\<close>

text \<open>
  Rounding a rational to the nearest binary64 value, ties to even: 53 significant bits, the
  least exponent \<open>-1074\<close> (so subnormal numbers are covered), and infinity from \<open>2^1024\<close> on.
\<close>

definition pow2 :: "int \<Rightarrow> rat" where
  "pow2 e = (if 0 \<le> e then 2 ^ nat e else 1 / 2 ^ nat (- e))"

text \<open>\<open>\<lfloor>log\<^sub>2 x\<rfloor>\<close> for a positive rational \<open>x\<close>.\<close>

definition ilog2 :: "rat \<Rightarrow> int" where
  "ilog2 x = (if 1 \<le> x then bitlen \<lfloor>x\<rfloor> - 1 else - bitlen (\<lceil>1 / x\<rceil> - 1))"

definition round_half_even :: "rat \<Rightarrow> int" where
  "round_half_even q =
     (let f = \<lfloor>q\<rfloor>; d = q - of_int f
      in if d < 1 / 2 then f
         else if 1 / 2 < d then f + 1
         else if even f then f else f + 1)"

definition round_double :: "rat \<Rightarrow> pyfloat" where
  "round_double x =
     (if x = 0 then Finite 0
      else
        let e = max (ilog2 \<bar>x\<bar> - 52) (- 1074);
            m = round_half_even (\<bar>x\<bar> / pow2 e);
            y = of_int m * pow2 e
        in if pow2 1024 \<le> y then (if 0 < x then PosInf else NegInf)
           else Finite (if 0 < x then y else - y))"

text \<open>\<open>a * b\<close> on two floats.\<close>

fun float_mul :: "pyfloat \<Rightarrow> pyfloat \<Rightarrow> pyfloat" where
  "float_mul NaN _ = NaN"
| "float_mul _ NaN = NaN"
| "float_mul (Finite a) (Finite b) = round_double (a * b)"
| "float_mul (Finite a) PosInf = (if a = 0 then NaN else if 0 < a then PosInf else NegInf)"
| "float_mul (Finite a) NegInf = (if a = 0 then NaN else if 0 < a then NegInf else PosInf)"
| "float_mul PosInf (Finite b) = (if b = 0 then NaN else if 0 < b then PosInf else NegInf)"
| "float_mul NegInf (Finite b) = (if b = 0 then NaN else if 0 < b then NegInf else PosInf)"
| "float_mul PosInf PosInf = PosInf"
| "float_mul PosInf NegInf = NegInf"
| "float_mul NegInf PosInf = NegInf"
| "float_mul NegInf NegInf = PosInf"

text \<open>\<open>float(i)\<close> for an \<open>int\<close>: correctly rounded, \<open>OverflowError\<close> beyond the finite range.\<close>

definition float_of_int :: "int \<Rightarrow> pyerror + pyfloat" where
  "float_of_int i =
     (case round_double (of_int i) of
        Finite y \<Rightarrow> Inr (Finite y)
      | _ \<Rightarrow> Inl OverflowError)"

text \<open>
  \<open>amount * rate\<close> where \<open>amount\<close> is a \<open>float\<close> and \<open>rate\<close> is whatever the JSON body holds:
  a float, an integer or a boolean is multiplied, anything else is a \<open>TypeError\<close>.
\<close>

definition float_times :: "pyfloat \<Rightarrow> pyval \<Rightarrow> pyerror + pyval" where
  "float_times amount rate =
     (case rate of
        PFloat r \<Rightarrow> Inr (PFloat (float_mul amount r))
      | PInt i \<Rightarrow> (case float_of_int i of
                     Inl e \<Rightarrow> Inl e
                   | Inr r \<Rightarrow> Inr (PFloat (float_mul amount r)))
      | PBool b \<Rightarrow> Inr (PFloat (float_mul amount (Finite (if b then 1 else 0))))
      | _ \<Rightarrow> Inl TypeError)"

text \<open>
  \<open>k in v\<close> for a string \<open>k\<close>: key membership in a dict, element membership in a list,
  substring test in a string, \<open>TypeError\<close> on a value that is not iterable.
\<close>

definition py_contains :: "pyval \<Rightarrow> string \<Rightarrow> pyerror + bool" where
  "py_contains v k =
     (case v of
        PDict d \<Rightarrow> Inr (map_of d k \<noteq> None)
      | PList xs \<Rightarrow> Inr (PStr k \<in> set xs)
      | PStr s \<Rightarrow> Inr (sublist k s)
      | _ \<Rightarrow> Inl TypeError)"

text \<open>\<open>v[k]\<close> for a string \<open>k\<close>: only a dict can be indexed by a string.\<close>

definition py_getitem :: "pyval \<Rightarrow> string \<Rightarrow> pyerror + pyval" where
  "py_getitem v k =
     (case v of
        PDict d \<Rightarrow> (case map_of d k of None \<Rightarrow> Inl (KeyError k) | Some x \<Rightarrow> Inr x)
      | _ \<Rightarrow> Inl TypeError)"

text \<open>\<open>v[k] = x\<close> for a string \<open>k\<close>.\<close>

definition py_setitem :: "pyval \<Rightarrow> string \<Rightarrow> pyval \<Rightarrow> pyerror + pyval" where
  "py_setitem v k x =
     (case v of
        PDict d \<Rightarrow> Inr (PDict (AList.update k x d))
      | _ \<Rightarrow> Inl TypeError)"

text \<open>\<open>v.get(k, default)\<close>: only a dict has the method.\<close>

definition py_get :: "pyval \<Rightarrow> string \<Rightarrow> pyval \<Rightarrow> pyerror + pyval" where
  "py_get v k dflt =
     (case v of
        PDict d \<Rightarrow> Inr (case map_of d k of None \<Rightarrow> dflt | Some x \<Rightarrow> x)
      | _ \<Rightarrow> Inl AttributeError)"

text \<open>
  \<open>for block in v\<close>: the elements of a list, the characters of a string, the keys of a dict;
  \<open>TypeError\<close> on a value that is not iterable.
\<close>

definition py_iter :: "pyval \<Rightarrow> pyerror + pyval list" where
  "py_iter v =
     (case v of
        PList xs \<Rightarrow> Inr xs
      | PStr s \<Rightarrow> Inr (map (\<lambda>c. PStr [c]) s)
      | PDict d \<Rightarrow> Inr (map (\<lambda>kv. PStr (fst kv)) d)
      | _ \<Rightarrow> Inl TypeError)"

text \<open>\<open>sep.join(items)\<close>: every item must be a string.\<close>

fun str_items :: "pyval list \<Rightarrow> pyerror + string list" where
  "str_items [] = Inr []"
| "str_items (PStr s # rest) =
     (case str_items rest of Inl e \<Rightarrow> Inl e | Inr ss \<Rightarrow> Inr (s # ss))"
| "str_items (_ # rest) = Inl TypeError"

fun join_strs :: "string \<Rightarrow> string list \<Rightarrow> string" where
  "join_strs sep [] = []"
| "join_strs sep [s] = s"
| "join_strs sep (s # t # rest) = s @ sep @ join_strs sep (t # rest)"

definition py_join :: "string \<Rightarrow> pyval list \<Rightarrow> pyerror + string" where
  "py_join sep items =
     (case str_items items of Inl e \<Rightarrow> Inl e | Inr ss \<Rightarrow> Inr (join_strs sep ss))"

text \<open>
  An \<open>Optional[str]\<close> placed in a payload as it is (an environment value, \<open>None\<close> when the
  variable is unset, or a string parameter).
\<close>

definition pyval_of_env :: "string option \<Rightarrow> pyval" where
  "pyval_of_env x = (case x of None \<Rightarrow> PNone | Some s \<Rightarrow> PStr s)"

section \<open>AbstractAPI: time zone and currency conversion\<close>

text \<open>
  \<open>src/servers/abstract-api/server.py\<close>.  The calls pass no headers; the API key travels as
  the query parameter \<open>api_key\<close>.  Both functions raise the built-in \<open>ValueError\<close>; the
  specification's taxonomy calls the failure of \<open>get_timezone\<close> a ValidationError.
\<close>

definition timezone_error :: string where
  "timezone_error = ''Either location or latitude/longitude must be provided''"

definition get_timezone_params ::
  "string option \<Rightarrow> string option \<Rightarrow> pyfloat option \<Rightarrow> pyfloat option \<Rightarrow> pyerror + pydict" where
  "get_timezone_params API_KEY location latitude longitude =
     (let params = [(''api_key'', pyval_of_env API_KEY)]
      in if truthy_str location then
           Inr (AList.update ''location'' (pyval_of_env location) params)
         else
           (case (latitude, longitude) of
              (Some lat, Some lon) \<Rightarrow>
                Inr (AList.update ''longitude'' (PFloat lon)
                       (AList.update ''latitude'' (PFloat lat) params))
            | _ \<Rightarrow> Inl (ValueError timezone_error)))"

definition get_timezone ::
  "transport \<Rightarrow> string option \<Rightarrow> string option \<Rightarrow> pyfloat option \<Rightarrow> pyfloat option \<Rightarrow>
   pyval outcome" where
  "get_timezone upstream API_KEY location latitude longitude =
     (case get_timezone_params API_KEY location latitude longitude of
        Inl e \<Rightarrow> raise e
      | Inr params \<Rightarrow>
          send upstream
            (Request GET ''https://timezone.abstractapi.com/v1/current_time/''
               [] None (Some params) None))"

text \<open>
  The response shaping of \<open>convert_currency\<close>: the lines after \<open>result = response.json()\<close>.
  \<open>amount\<close> is a \<open>float\<close>, as the signature declares.
\<close>

definition attach_conversion :: "pyval \<Rightarrow> string \<Rightarrow> pyfloat \<Rightarrow> pyerror + pyval" where
  "attach_conversion result target amount =
     (case py_contains result ''exchange_rates'' of
        Inl e \<Rightarrow> Inl e
      | Inr False \<Rightarrow> Inr result
      | Inr True \<Rightarrow>
          (case py_getitem result ''exchange_rates'' of
             Inl e \<Rightarrow> Inl e
           | Inr rates \<Rightarrow>
               (case py_contains rates target of
                  Inl e \<Rightarrow> Inl e
                | Inr False \<Rightarrow> Inr result
                | Inr True \<Rightarrow>
                    (case py_getitem rates target of
                       Inl e \<Rightarrow> Inl e
                     | Inr rate \<Rightarrow>
                         (case float_times amount rate of
                            Inl e \<Rightarrow> Inl e
                          | Inr converted \<Rightarrow>
                              (case py_setitem result ''converted_amount'' converted of
                                 Inl e \<Rightarrow> Inl e
                               | Inr result' \<Rightarrow>
                                   py_setitem result' ''amount'' (PFloat amount)))))))"

definition convert_currency_request ::
  "string option \<Rightarrow> string \<Rightarrow> string \<Rightarrow> string option \<Rightarrow> request" where
  "convert_currency_request API_KEY base target date =
     (let params = [(''api_key'', pyval_of_env API_KEY), (''base'', PStr base),
                    (''target'', PStr target)];
          endpoint = (if \<not> truthy_str date then ''live'' else ''historical'');
          params = set_if_str ''date'' date params
      in Request GET (''https://exchange-rates.abstractapi.com/v1/'' @ endpoint @ ''/'')
           [] None (Some params) None)"

definition convert_currency ::
  "transport \<Rightarrow> string option \<Rightarrow> string \<Rightarrow> string \<Rightarrow> pyfloat \<Rightarrow> string option \<Rightarrow>
   pyval outcome" where
  "convert_currency upstream API_KEY base target amount date =
     (case send upstream (convert_currency_request API_KEY base target date) of
        (sent, Inl e) \<Rightarrow> (sent, Inl e)
      | (sent, Inr result) \<Rightarrow> (sent, attach_conversion result target amount))"

section \<open>ClickUp: lists of a folder or a space\<close>

text \<open>
  \<open>src/servers/clickup/server.py\<close>, \<open>list_lists\<close>.  \<open>get_headers\<close> passes \<open>API_TOKEN\<close> as
  it is.
\<close>

definition CLICKUP_BASE_URL :: string where
  "CLICKUP_BASE_URL = ''https://api.clickup.com/api/v2''"

definition clickup_get_headers :: "string option \<Rightarrow> (string \<times> string option) list" where
  "clickup_get_headers API_TOKEN =
     [(''Authorization'', API_TOKEN), (''Content-Type'', Some ''application/json'')]"

definition list_lists_error :: string where
  "list_lists_error = ''Either folder_id or space_id must be provided''"

text \<open>\<open>str(archived).lower()\<close>\<close>

definition str_lower_bool :: "bool \<Rightarrow> string" where
  "str_lower_bool b = (if b then ''true'' else ''false'')"

definition list_lists_url :: "string option \<Rightarrow> string option \<Rightarrow> pyerror + string" where
  "list_lists_url folder_id space_id =
     (if truthy_str folder_id then
        Inr (CLICKUP_BASE_URL @ ''/folder/'' @ str_of_env folder_id @ ''/list'')
      else if truthy_str space_id then
        Inr (CLICKUP_BASE_URL @ ''/space/'' @ str_of_env space_id @ ''/list'')
      else Inl (ValueError list_lists_error))"

definition list_lists ::
  "transport \<Rightarrow> string option \<Rightarrow> string option \<Rightarrow> string option \<Rightarrow> bool \<Rightarrow> pyval outcome" where
  "list_lists upstream API_TOKEN folder_id space_id archived =
     (case list_lists_url folder_id space_id of
        Inl e \<Rightarrow> raise e
      | Inr url \<Rightarrow>
          send upstream
            (Request GET url (clickup_get_headers API_TOKEN) None
               (Some [(''archived'', PStr (str_lower_bool archived))]) None))"

section \<open>Claude: the simple chat interface\<close>

text \<open>
  \<open>src/servers/claude/server.py\<close>.  The module refuses to load without \<open>ANTHROPIC_API_KEY\<close>,
  so inside its functions the key is a string.
\<close>

definition ANTHROPIC_BASE_URL :: string where
  "ANTHROPIC_BASE_URL = ''https://api.anthropic.com/v1''"

definition ANTHROPIC_VERSION :: string where
  "ANTHROPIC_VERSION = ''2023-06-01''"

definition make_claude_request ::
  "transport \<Rightarrow> string \<Rightarrow> string \<Rightarrow> string \<Rightarrow> pyval option \<Rightarrow> pyval outcome" where
  "make_claude_request upstream ANTHROPIC_API_KEY method endpoint data =
     (let headers = [(''x-api-key'', Some ANTHROPIC_API_KEY),
                     (''anthropic-version'', Some ANTHROPIC_VERSION),
                     (''content-type'', Some ''application/json'')];
          url = ANTHROPIC_BASE_URL @ ''/'' @ endpoint
      in if method = ''GET'' then send upstream (Request GET url headers None None None)
         else if method = ''POST'' then send upstream (Request POST url headers None None data)
         else raise (ValueError (''Unsupported HTTP method: '' @ method)))"

text \<open>
  The loop \<open>for block in ...: if block.get("type") == "text": text_content.append(block.get("text", ""))\<close>,
  with the list built so far as accumulator.
\<close>

fun collect_text :: "pyval list \<Rightarrow> pyval list \<Rightarrow> pyerror + pyval list" where
  "collect_text [] text_content = Inr text_content"
| "collect_text (block # rest) text_content =
     (case py_get block ''type'' PNone of
        Inl e \<Rightarrow> Inl e
      | Inr ty \<Rightarrow>
          if ty = PStr ''text'' then
            (case py_get block ''text'' (PStr []) of
               Inl e \<Rightarrow> Inl e
             | Inr t \<Rightarrow> collect_text rest (text_content @ [t]))
          else collect_text rest text_content)"

text \<open>The lines of \<open>chat\<close> after the request: extract the text of the content blocks.\<close>

definition extract_text :: "pyval \<Rightarrow> pyerror + string" where
  "extract_text result =
     (case py_get result ''content'' (PList []) of
        Inl e \<Rightarrow> Inl e
      | Inr content \<Rightarrow>
          (case py_iter content of
             Inl e \<Rightarrow> Inl e
           | Inr blocks \<Rightarrow>
               (case collect_text blocks [] of
                  Inl e \<Rightarrow> Inl e
                | Inr text_content \<Rightarrow> py_join ''\<newline>'' text_content)))"

definition chat_data :: "string \<Rightarrow> string \<Rightarrow> int \<Rightarrow> string option \<Rightarrow> pyfloat option \<Rightarrow> pydict" where
  "chat_data prompt model max_tokens system temperature =
     (let messages = PList [PDict [(''role'', PStr ''user''), (''content'', PStr prompt)]];
          data = [(''model'', PStr model), (''messages'', messages),
                  (''max_tokens'', PInt max_tokens)];
          data = set_if_str ''system'' system data;
          data = (case temperature of
                    None \<Rightarrow> data
                  | Some t \<Rightarrow> AList.update ''temperature'' (PFloat t) data)
      in data)"

definition chat ::
  "transport \<Rightarrow> string \<Rightarrow> string \<Rightarrow> string \<Rightarrow> int \<Rightarrow> string option \<Rightarrow> pyfloat option \<Rightarrow>
   string outcome" where
  "chat upstream ANTHROPIC_API_KEY prompt model max_tokens system temperature =
     (case make_claude_request upstream ANTHROPIC_API_KEY ''POST'' ''messages''
             (Some (PDict (chat_data prompt model max_tokens system temperature))) of
        (sent, Inl e) \<Rightarrow> (sent, Inl e)
      | (sent, Inr result) \<Rightarrow> (sent, extract_text result))"

text \<open>
  The specification's wording of the simplified-text shaping, for comparison with
  \<open>extract_text\<close>: the text of all blocks whose type is \<open>text\<close>, in order, joined by a newline.
\<close>

definition is_text_block :: "pyval \<Rightarrow> bool" where
  "is_text_block b =
     (case b of PDict d \<Rightarrow> map_of d ''type'' = Some (PStr ''text'') | _ \<Rightarrow> False)"

definition text_field :: "pyval \<Rightarrow> string" where
  "text_field b =
     (case b of
        PDict d \<Rightarrow> (case map_of d ''text'' of Some (PStr s) \<Rightarrow> s | _ \<Rightarrow> [])
      | _ \<Rightarrow> [])"

definition spec_simplified_text :: "pyval list \<Rightarrow> string" where
  "spec_simplified_text blocks = join_strs ''\<newline>'' (map text_field (filter is_text_block blocks))"

section \<open>Todoist comments and Asana tasks\<close>

text \<open>
  \<open>src/servers/todoist/server.py\<close>, \<open>list_comments\<close> and \<open>create_comment\<close>: the docstrings
  ask for either \<open>task_id\<close> or \<open>project_id\<close>; the \<open>if\<close>/\<open>elif\<close> has no \<open>else\<close>.
\<close>

definition list_comments_params :: "string option \<Rightarrow> string option \<Rightarrow> pydict" where
  "list_comments_params task_id project_id =
     (let params = []
      in if truthy_str task_id then AList.update ''task_id'' (pyval_of_env task_id) params
         else if truthy_str project_id then
           AList.update ''project_id'' (pyval_of_env project_id) params
         else params)"

definition list_comments ::
  "transport \<Rightarrow> string option \<Rightarrow> string option \<Rightarrow> string option \<Rightarrow> pyval outcome" where
  "list_comments upstream API_TOKEN task_id project_id =
     send upstream
       (Request GET (TODOIST_BASE_URL @ ''/comments'') (todoist_get_headers API_TOKEN) None
          (Some (list_comments_params task_id project_id)) None)"

definition create_comment_payload ::
  "string \<Rightarrow> string option \<Rightarrow> string option \<Rightarrow> pydict option \<Rightarrow> pydict" where
  "create_comment_payload content task_id project_id attachment =
     (let payload = [(''content'', PStr content)];
          payload =
            (if truthy_str task_id then AList.update ''task_id'' (pyval_of_env task_id) payload
             else if truthy_str project_id then
               AList.update ''project_id'' (pyval_of_env project_id) payload
             else payload)
      in case attachment of
           None \<Rightarrow> payload
         | Some a \<Rightarrow> if a \<noteq> [] then AList.update ''attachment'' (PDict a) payload else payload)"

definition create_comment ::
  "transport \<Rightarrow> string option \<Rightarrow> string \<Rightarrow> string option \<Rightarrow> string option \<Rightarrow> pydict option \<Rightarrow>
   pyval outcome" where
  "create_comment upstream API_TOKEN content task_id project_id attachment =
     send upstream
       (Request POST (TODOIST_BASE_URL @ ''/comments'') (todoist_get_headers API_TOKEN) None None
          (Some (PDict (create_comment_payload content task_id project_id attachment))))"







section \<open>Properties\<close>

subsection \<open>Mailchimp\<close>

lemma split_char_not_Nil: "split_char c s \<noteq> []"
  by (induction s) (auto split: list.splits)

lemma split_char_no_sep: "c \<notin> set s \<Longrightarrow> split_char c s = [s]"
  by (induction s) auto

lemma last_split_char_append:
  "c \<notin> set dc \<Longrightarrow> last (split_char c (pre @ c # dc)) = dc"
proof (induction pre)
  case Nil
  then show ?case by (simp add: split_char_no_sep)
next
  case (Cons x pre)
  obtain w ws where ws: "split_char c (pre @ c # dc) = w # ws"
    using split_char_not_Nil [of c "pre @ c # dc"] by (cases "split_char c (pre @ c # dc)") auto
  have "ws \<noteq> []"
  proof
    assume "ws = []"
    then have "split_char c (pre @ c # dc) = [w]" using ws by simp
    moreover have "length (split_char c (pre @ c # dc)) \<ge> 2"
    proof (induction pre)
      case Nil
      then show ?case using split_char_not_Nil [of c dc] by (cases "split_char c dc") auto
    next
      case (Cons y pre)
      then show ?case by (auto split: list.splits)
    qed
    ultimately show False by simp
  qed
  with Cons ws show ?case by (auto split: list.splits)
qed

text \<open>
  C3.  With the credential \<open>abc123-us5\<close> the base URL is
  \<open>https://us5.api.mailchimp.com/3.0\<close>: the data-center component of the host is \<open>us5\<close>;
  in general the trailing segment after the last \<open>-\<close> becomes that component.  With an unset
  credential, or one that contains no \<open>-\<close>, \<open>get_base_url\<close> raises \<open>ValueError\<close> (the
  specification's ConfigurationError) with the descriptive format message, and a tool that
  uses it (\<open>list_audiences\<close>) hands no request to the HTTP client.
\<close>

theorem get_base_url_data_center:
  "get_base_url (Some ''abc123-us5'') = Inr ''https://us5.api.mailchimp.com/3.0''
   \<and> (CHR ''-'' \<notin> set dc \<longrightarrow>
        get_base_url (Some (pre @ ''-'' @ dc)) = Inr (''https://'' @ dc @ ''.api.mailchimp.com/3.0''))
   \<and> (CHR ''-'' \<notin> set key \<longrightarrow>
        get_base_url (Some key) = Inl (ValueError mailchimp_key_error)
        \<and> list_audiences upstream (Some key) count offset = ([], Inl (ValueError mailchimp_key_error)))
   \<and> get_base_url None = Inl (ValueError mailchimp_key_error)
   \<and> list_audiences upstream None count offset = ([], Inl (ValueError mailchimp_key_error))"
proof -
  have gen: "get_base_url (Some (pre @ ''-'' @ dc)) = Inr (''https://'' @ dc @ ''.api.mailchimp.com/3.0'')"
    if "CHR ''-'' \<notin> set dc" for pre dc
    using that last_split_char_append [of "CHR ''-''" dc pre] split_char_not_Nil [of "CHR ''-''" "pre @ CHR ''-'' # dc"]
    by (simp add: get_base_url_def py_last_def)
  have "get_base_url (Some (''abc123'' @ ''-'' @ ''us5'')) = Inr (''https://'' @ ''us5'' @ ''.api.mailchimp.com/3.0'')"
    by (rule gen) simp
  then have c1: "get_base_url (Some ''abc123-us5'') = Inr ''https://us5.api.mailchimp.com/3.0''"
    by simp
  have c3: "get_base_url (Some key) = Inl (ValueError mailchimp_key_error)" if "CHR ''-'' \<notin> set key"
    using that by (simp add: get_base_url_def)
  have c4: "get_base_url None = Inl (ValueError mailchimp_key_error)"
    by (simp add: get_base_url_def)
  show ?thesis
    using c1 gen c3 c4 by (simp add: list_audiences_def raise_def)
qed

theorem get_base_url_data_center_witness:
  "CHR ''-'' \<notin> set ''us5'' \<and> CHR ''-'' \<notin> set ''abc123us5''
   \<and> get_base_url (Some ''key-part-us5'') = Inr ''https://us5.api.mailchimp.com/3.0''
   \<and> get_base_url (Some ''abc123us5'') = Inl (ValueError mailchimp_key_error)
   \<and> list_audiences (\<lambda>rq. Inl TransportFailure) (Some ''abc123us5'') 10 0
       = ([], Inl (ValueError mailchimp_key_error))"
  using get_base_url_data_center [of "''us5''" "''key-part''" "''abc123us5''" "\<lambda>rq. Inl TransportFailure" 10 0]
  by simp

subsection \<open>Payload keys\<close>









lemma fst_send: "fst (send upstream rq) = [rq]"
  by (simp add: send_def)

lemma fst_raise: "fst (raise e) = []"
  by (simp add: raise_def)


lemma fst_list_records:
  "rq \<in> set (fst (list_records upstream tok base_id table_id_or_name
          fields filter_by_formula max_records page_size sort' view offset)) \<Longrightarrow>
   \<exists>params. list_records_params fields filter_by_formula max_records page_size sort' view offset
                = Inr params \<and> req_params rq = Some params"
  by (auto simp: list_records_def fst_send fst_raise split: sum.splits)







subsection \<open>Todoist: falsy values\<close>

text \<open>
  C8.  \<open>update_task\<close> tests its optional parameters by truthiness, so a supplied but falsy
  value is dropped: with \<open>priority=0\<close>, with \<open>content=""\<close> and with \<open>labels=[]\<close> the
  payload, and with it the whole request and outcome, is the one built when the parameter is
  not supplied at all.
\<close>

theorem update_task_falsy_dropped:
  "update_task_payload content description labels (Some 0) due_string due_date due_datetime due_lang assignee_id
     = update_task_payload content description labels None due_string due_date due_datetime due_lang assignee_id
   \<and> update_task_payload (Some '''') description labels priority due_string due_date due_datetime due_lang assignee_id
     = update_task_payload None description labels priority due_string due_date due_datetime due_lang assignee_id
   \<and> update_task_payload content description (Some []) priority due_string due_date due_datetime due_lang assignee_id
     = update_task_payload content description None priority due_string due_date due_datetime due_lang assignee_id
   \<and> update_task upstream API_TOKEN task_id content description labels (Some 0) due_string due_date due_datetime due_lang assignee_id
     = update_task upstream API_TOKEN task_id content description labels None due_string due_date due_datetime due_lang assignee_id
   \<and> update_task upstream API_TOKEN task_id (Some '''') description labels priority due_string due_date due_datetime due_lang assignee_id
     = update_task upstream API_TOKEN task_id None description labels priority due_string due_date due_datetime due_lang assignee_id
   \<and> update_task upstream API_TOKEN task_id content description (Some []) priority due_string due_date due_datetime due_lang assignee_id
     = update_task upstream API_TOKEN task_id content description None priority due_string due_date due_datetime due_lang assignee_id"
proof -
  have a: "set_if_int k (Some 0) p = set_if_int k None p" for k p
    by (simp add: set_if_int_def)
  have b: "set_if_str k (Some '''') p = set_if_str k None p" for k p
    by (simp add: set_if_str_def)
  have c: "set_if_labels k (Some []) p = set_if_labels k None p" for k p
    by (simp add: set_if_labels_def)
  show ?thesis
    by (simp only: update_task_def update_task_payload_def Let_def a b c)
qed

subsection \<open>Airtable: search, fields, bulk operations and verbs\<close>

lemma distinct_set_if_str: "distinct (map fst p) \<Longrightarrow> distinct (map fst (set_if_str k x p))"
  by (simp add: set_if_str_def AList.distinct_update split: option.splits)

lemma distinct_set_if_int: "distinct (map fst p) \<Longrightarrow> distinct (map fst (set_if_int k x p))"
  by (simp add: set_if_int_def AList.distinct_update split: option.splits)

lemma distinct_fields_params: "distinct (map fst p) \<Longrightarrow> distinct (map fst (fields_params fs p))"
  by (induction fs arbitrary: p) (simp_all add: AList.distinct_update)

lemma distinct_sort_params:
  "sort_params i items p = Inr q \<Longrightarrow> distinct (map fst p) \<Longrightarrow> distinct (map fst q)"
  by (induction i items p rule: sort_params.induct)
     (auto simp: AList.distinct_update split: option.splits)

lemma map_of_set_if_str_other: "k' \<noteq> k \<Longrightarrow> map_of (set_if_str k x p) k' = map_of p k'"
  by (simp add: set_if_str_def AList.update_conv' split: option.splits)

lemma map_of_set_if_int_other: "k' \<noteq> k \<Longrightarrow> map_of (set_if_int k x p) k' = map_of p k'"
  by (simp add: set_if_int_def AList.update_conv' split: option.splits)

lemma map_of_fields_params:
  "fs \<noteq> [] \<Longrightarrow> map_of (fields_params fs p) ''fields[]'' = Some (PStr (last fs))"
proof (induction fs arbitrary: p)
  case Nil
  then show ?case by simp
next
  case (Cons f fs)
  show ?case
  proof (cases "fs = []")
    case True
    then show ?thesis by (simp add: AList.update_conv')
  next
    case False
    with Cons.IH show ?thesis by simp
  qed
qed

lemma map_of_sort_params_other:
  "sort_params i items p = Inr q \<Longrightarrow> \<not> prefix ''sort['' k \<Longrightarrow> map_of q k = map_of p k"
proof (induction i items p rule: sort_params.induct)
  case (1 i params)
  then show ?case by simp
next
  case (2 i sort_item rest params)
  from "2.prems"(1) obtain f where f: "map_of sort_item ''field'' = Some f"
    by (auto split: option.splits)
  have ne: "''sort['' @ str_nat i @ s \<noteq> k" for s
    using "2.prems"(2) by (auto simp: prefix_def)
  show ?case
    using "2.IH" [OF f] "2.prems" f ne [of "''][direction]''"] ne [of "''][field]''"]
    by (simp add: AList.update_conv')
qed

lemma filter_key_distinct:
  "distinct (map fst p) \<Longrightarrow> map_of p k = Some v \<Longrightarrow> filter (\<lambda>kv. fst kv = k) p = [(k, v)]"
proof (induction p)
  case Nil
  then show ?case by simp
next
  case (Cons a p)
  show ?case
  proof (cases "fst a = k")
    case True
    have "\<forall>x \<in> set p. fst x \<noteq> k"
      using Cons.prems(1) True by (auto simp: image_iff)
    then have "filter (\<lambda>kv. fst kv = k) p = []"
      by (simp add: filter_empty_conv)
    with True Cons.prems(2) show ?thesis by (cases a) auto
  next
    case False
    with Cons show ?thesis by (cases a) auto
  qed
qed

lemma list_records_params_fields:
  assumes "list_records_params (Some fs) filter_by_formula max_records page_size sort' view offset = Inr params"
    and "fs \<noteq> []"
  shows "filter (\<lambda>kv. fst kv = ''fields[]'') params = [(''fields[]'', PStr (last fs))]"
proof -
  define base where "base = set_if_str ''offset'' offset (set_if_str ''view'' view
      (set_if_int ''pageSize'' page_size (set_if_int ''maxRecords'' max_records
        (set_if_str ''filterByFormula'' filter_by_formula (fields_params fs [])))))"
  have d: "distinct (map fst base)"
    unfolding base_def
    by (intro distinct_set_if_str distinct_set_if_int distinct_fields_params) simp
  have m: "map_of base ''fields[]'' = Some (PStr (last fs))"
    unfolding base_def
    by (simp add: map_of_set_if_str_other map_of_set_if_int_other map_of_fields_params assms(2))
  have eq: "(case sort' of None \<Rightarrow> Inr base
         | Some items \<Rightarrow> if items \<noteq> [] then sort_params 0 items base else Inr base) = Inr params"
    using assms(1) unfolding list_records_params_def Let_def base_def
    by (cases sort') (auto simp: assms(2) split: if_splits)
  have "distinct (map fst params) \<and> map_of params ''fields[]'' = Some (PStr (last fs))"
  proof (cases "truthy_list sort'")
    case False
    then have "params = base"
      using eq by (auto simp: truthy_list_def split: option.splits if_splits)
    with d m show ?thesis by simp
  next
    case True
    then obtain items where "sort' = Some items" "items \<noteq> []"
      by (auto simp: truthy_list_def split: option.splits)
    then have sp: "sort_params 0 items base = Inr params" using eq by simp
    have "\<not> prefix ''sort['' ''fields[]''" by simp
    from distinct_sort_params [OF sp d] map_of_sort_params_other [OF sp this] m
    show ?thesis by simp
  qed
  then show ?thesis by (simp add: filter_key_distinct)
qed

text \<open>
  C10.  When \<open>list_records\<close> is called with a non-empty \<open>fields\<close> list (in particular one
  with more than one name), every request it issues has exactly one query parameter with the
  key \<open>fields[]\<close>, and its value is the last name of the list: the earlier names were
  overwritten under the same key.
\<close>

theorem list_records_fields_last_only:
  "fs \<noteq> [] \<Longrightarrow>
   \<forall>rq \<in> set (fst (list_records upstream AIRTABLE_ACCESS_TOKEN base_id table_id_or_name
              (Some fs) filter_by_formula max_records page_size sort' view offset)).
     \<exists>params. req_params rq = Some params
       \<and> filter (\<lambda>kv. fst kv = ''fields[]'') params = [(''fields[]'', PStr (last fs))]"
proof
  fix rq
  assume ne: "fs \<noteq> []"
    and "rq \<in> set (fst (list_records upstream AIRTABLE_ACCESS_TOKEN base_id table_id_or_name
              (Some fs) filter_by_formula max_records page_size sort' view offset))"
  from fst_list_records [OF this(2)] obtain params where
    ps: "list_records_params (Some fs) filter_by_formula max_records page_size sort' view offset = Inr params"
    and rq: "req_params rq = Some params" by blast
  from list_records_params_fields [OF ps ne] rq
  show "\<exists>params. req_params rq = Some params
       \<and> filter (\<lambda>kv. fst kv = ''fields[]'') params = [(''fields[]'', PStr (last fs))]"
    by simp
qed

theorem list_records_fields_last_only_witness:
  "[''Name'', ''Status'', ''Owner''] \<noteq> []
   \<and> (\<exists>rq. fst (list_records (\<lambda>rq. Inl TransportFailure) (Some ''tok'') ''app1'' ''Tasks''
                  (Some [''Name'', ''Status'', ''Owner'']) None None None None None None) = [rq]
         \<and> req_params rq = Some [(''fields[]'', PStr ''Owner'')]
         \<and> filter (\<lambda>kv. fst kv = ''fields[]'') [(''fields[]'', PStr ''Owner'')]
             = [(''fields[]'', PStr (last [''Name'', ''Status'', ''Owner'']))])"
proof -
  let ?up = "\<lambda>rq::request. (Inl TransportFailure :: pyerror + response)"
  have ps: "list_records_params (Some [''Name'', ''Status'', ''Owner'']) None None None None None None
      = Inr [(''fields[]'', PStr ''Owner'')]"
    by (simp add: list_records_params_def set_if_str_def set_if_int_def)
  have lr: "fst (list_records ?up (Some ''tok'') ''app1'' ''Tasks''
                  (Some [''Name'', ''Status'', ''Owner'']) None None None None None None)
      = [Request GET (AIRTABLE_BASE_URL @ ''/app1/Tasks'')
           [(''Authorization'', Some ''Bearer tok''), (''Content-Type'', Some ''application/json'')]
           None (Some [(''fields[]'', PStr ''Owner'')]) None]"
    by (simp add: list_records_def ps airtable_get_headers_def truthy_str_def str_of_env_def fst_send)
  show ?thesis
    using list_records_fields_last_only [of "[''Name'', ''Status'', ''Owner'']" ?up "Some ''tok''"
        "''app1''" "''Tasks''" None None None None None None]
    by (simp add: lr)
qed

lemma airtable_headers_ok:
  "truthy_str tok \<Longrightarrow> \<exists>hdrs. airtable_get_headers tok = Inr hdrs"
  by (simp add: airtable_get_headers_def)

lemma take_format_record: "take n (map format_record (take n records)) = take n (map format_record records)"
  by (simp add: take_map)

text \<open>
  C2.  \<open>bulk_create_records\<close> and \<open>bulk_update_records\<close> behave on a record list exactly
  as on its first ten records, so a longer list causes no error of its own; with an access
  token set, one request is issued, and its body carries the first ten records (formatted, for
  the create operation): ten when more than ten were supplied, all of them otherwise.
\<close>

theorem bulk_records_truncated:
  "bulk_create_records upstream AIRTABLE_ACCESS_TOKEN base_id table_id_or_name records
     = bulk_create_records upstream AIRTABLE_ACCESS_TOKEN base_id table_id_or_name (take 10 records)
   \<and> bulk_update_records upstream AIRTABLE_ACCESS_TOKEN base_id table_id_or_name records replace_all
     = bulk_update_records upstream AIRTABLE_ACCESS_TOKEN base_id table_id_or_name (take 10 records) replace_all
   \<and> (truthy_str AIRTABLE_ACCESS_TOKEN \<longrightarrow>
        (\<exists>rq. fst (bulk_create_records upstream AIRTABLE_ACCESS_TOKEN base_id table_id_or_name records) = [rq]
           \<and> sent_records rq = map PDict (map format_record (take 10 records))
           \<and> length (sent_records rq) = min 10 (length records)
           \<and> (10 < length records \<longrightarrow> length (sent_records rq) = 10)
           \<and> (length records \<le> 10 \<longrightarrow> sent_records rq = map PDict (map format_record records))))
   \<and> (truthy_str AIRTABLE_ACCESS_TOKEN \<longrightarrow>
        (\<exists>rq. fst (bulk_update_records upstream AIRTABLE_ACCESS_TOKEN base_id table_id_or_name records replace_all) = [rq]
           \<and> sent_records rq = map PDict (take 10 records)
           \<and> length (sent_records rq) = min 10 (length records)
           \<and> (10 < length records \<longrightarrow> length (sent_records rq) = 10)
           \<and> (length records \<le> 10 \<longrightarrow> sent_records rq = map PDict records)))"
proof (intro conjI impI)
  show "bulk_create_records upstream AIRTABLE_ACCESS_TOKEN base_id table_id_or_name records
     = bulk_create_records upstream AIRTABLE_ACCESS_TOKEN base_id table_id_or_name (take 10 records)"
    by (simp only: bulk_create_records_def Let_def take_format_record)
  show "bulk_update_records upstream AIRTABLE_ACCESS_TOKEN base_id table_id_or_name records replace_all
     = bulk_update_records upstream AIRTABLE_ACCESS_TOKEN base_id table_id_or_name (take 10 records) replace_all"
    by (simp only: bulk_update_records_def Let_def take_take min.idem)
next
  assume "truthy_str AIRTABLE_ACCESS_TOKEN"
  then obtain hdrs where h: "airtable_get_headers AIRTABLE_ACCESS_TOKEN = Inr hdrs"
    using airtable_headers_ok by blast
  let ?rq = "Request POST (AIRTABLE_BASE_URL @ ''/'' @ base_id @ ''/'' @ table_id_or_name) hdrs None None
       (Some (PDict [(''records'', PList (map PDict (take 10 (map format_record records))))]))"
  have 1: "fst (bulk_create_records upstream AIRTABLE_ACCESS_TOKEN base_id table_id_or_name records) = [?rq]"
    by (simp add: bulk_create_records_def h fst_send)
  have 2: "sent_records ?rq = map PDict (map format_record (take 10 records))"
    by (simp add: sent_records_def take_map)
  have 3: "length (sent_records ?rq) = min 10 (length records)"
    unfolding 2 by simp
  have 4: "10 < length records \<longrightarrow> length (sent_records ?rq) = 10"
    unfolding 2 by simp
  have 5: "length records \<le> 10 \<longrightarrow> sent_records ?rq = map PDict (map format_record records)"
    unfolding 2 by simp
  from 1 2 3 4 5
  show "\<exists>rq. fst (bulk_create_records upstream AIRTABLE_ACCESS_TOKEN base_id table_id_or_name records) = [rq]
           \<and> sent_records rq = map PDict (map format_record (take 10 records))
           \<and> length (sent_records rq) = min 10 (length records)
           \<and> (10 < length records \<longrightarrow> length (sent_records rq) = 10)
           \<and> (length records \<le> 10 \<longrightarrow> sent_records rq = map PDict (map format_record records))"
    by blast
next
  assume "truthy_str AIRTABLE_ACCESS_TOKEN"
  then obtain hdrs where h: "airtable_get_headers AIRTABLE_ACCESS_TOKEN = Inr hdrs"
    using airtable_headers_ok by blast
  let ?rq = "Request (if replace_all then PUT else PATCH)
       (AIRTABLE_BASE_URL @ ''/'' @ base_id @ ''/'' @ table_id_or_name) hdrs None None
       (Some (PDict [(''records'', PList (map PDict (take 10 records)))]))"
  have 1: "fst (bulk_update_records upstream AIRTABLE_ACCESS_TOKEN base_id table_id_or_name records replace_all) = [?rq]"
    by (simp add: bulk_update_records_def h fst_send)
  have 2: "sent_records ?rq = map PDict (take 10 records)"
    by (simp add: sent_records_def)
  have 3: "length (sent_records ?rq) = min 10 (length records)"
    unfolding 2 by simp
  have 4: "10 < length records \<longrightarrow> length (sent_records ?rq) = 10"
    unfolding 2 by simp
  have 5: "length records \<le> 10 \<longrightarrow> sent_records ?rq = map PDict records"
    unfolding 2 by simp
  from 1 2 3 4 5
  show "\<exists>rq. fst (bulk_update_records upstream AIRTABLE_ACCESS_TOKEN base_id table_id_or_name records replace_all) = [rq]
           \<and> sent_records rq = map PDict (take 10 records)
           \<and> length (sent_records rq) = min 10 (length records)
           \<and> (10 < length records \<longrightarrow> length (sent_records rq) = 10)
           \<and> (length records \<le> 10 \<longrightarrow> sent_records rq = map PDict records)"
    by blast
qed

text \<open>
  C5.  With an access token set, \<open>update_record\<close> and \<open>bulk_update_records\<close> issue one
  request whose verb is PUT when \<open>replace_all\<close> is true and PATCH when it is false, whatever
  the payload; the default of \<open>replace_all\<close> gives PATCH.
\<close>

theorem update_verb_by_replace_all:
  "truthy_str AIRTABLE_ACCESS_TOKEN \<Longrightarrow>
     map req_method (fst (update_record upstream AIRTABLE_ACCESS_TOKEN base_id table_id_or_name
                            record_id fields replace_all))
       = [if replace_all then PUT else PATCH]
   \<and> map req_method (fst (bulk_update_records upstream AIRTABLE_ACCESS_TOKEN base_id table_id_or_name
                            records replace_all))
       = [if replace_all then PUT else PATCH]
   \<and> map req_method (fst (update_record upstream AIRTABLE_ACCESS_TOKEN base_id table_id_or_name
                            record_id fields replace_all_default)) = [PATCH]
   \<and> map req_method (fst (bulk_update_records upstream AIRTABLE_ACCESS_TOKEN base_id table_id_or_name
                            records replace_all_default)) = [PATCH]"
proof -
  assume "truthy_str AIRTABLE_ACCESS_TOKEN"
  then obtain hdrs where h: "airtable_get_headers AIRTABLE_ACCESS_TOKEN = Inr hdrs"
    using airtable_headers_ok by blast
  have u: "map req_method (fst (update_record upstream AIRTABLE_ACCESS_TOKEN base_id table_id_or_name
                            record_id fields b)) = [if b then PUT else PATCH]" for b
    by (simp add: update_record_def h fst_send)
  have v: "map req_method (fst (bulk_update_records upstream AIRTABLE_ACCESS_TOKEN base_id table_id_or_name
                            records b)) = [if b then PUT else PATCH]" for b
    by (simp add: bulk_update_records_def h fst_send)
  show ?thesis
    using u [of replace_all] v [of replace_all] u [of replace_all_default] v [of replace_all_default]
    by (simp add: replace_all_default_def)
qed

theorem bulk_records_truncated_witness:
  "truthy_str (Some ''tok'')
   \<and> (\<exists>rq. fst (bulk_create_records (\<lambda>rq. Inl TransportFailure) (Some ''tok'') ''app1'' ''Tasks''
                  (map (\<lambda>n. [(''Rank'', PInt n)]) [1, 2, 3, 4, 5, 6, 7, 8, 9, 10, 11])) = [rq]
         \<and> sent_records rq
             = map (\<lambda>n. PDict [(''fields'', PDict [(''Rank'', PInt n)])]) [1, 2, 3, 4, 5, 6, 7, 8, 9, 10]
         \<and> length (sent_records rq) = 10)
   \<and> (\<exists>rq. fst (bulk_update_records (\<lambda>rq. Inl TransportFailure) (Some ''tok'') ''app1'' ''Tasks''
                  (map (\<lambda>n. [(''id'', PInt n)]) [1, 2, 3, 4, 5, 6, 7, 8, 9, 10, 11]) False) = [rq]
         \<and> sent_records rq = map (\<lambda>n. PDict [(''id'', PInt n)]) [1, 2, 3, 4, 5, 6, 7, 8, 9, 10]
         \<and> length (sent_records rq) = 10)"
proof -
  let ?up = "\<lambda>rq::request. (Inl TransportFailure :: pyerror + response)"
  have t: "truthy_str (Some ''tok'')" by (simp add: truthy_str_def)
  have a: "map PDict (map format_record (take 10 (map (\<lambda>n. [(''Rank'', PInt n)]) [1, 2, 3, 4, 5, 6, 7, 8, 9, 10, 11])))
      = map (\<lambda>n. PDict [(''fields'', PDict [(''Rank'', PInt n)])]) [1, 2, 3, 4, 5, 6, 7, 8, 9, 10]"
    by (simp add: format_record_def)
  have b: "map PDict (take 10 (map (\<lambda>n. [(''id'', PInt n)]) [1, 2, 3, 4, 5, 6, 7, 8, 9, 10, 11]))
      = map (\<lambda>n. PDict [(''id'', PInt n)]) [1, 2, 3, 4, 5, 6, 7, 8, 9, 10]"
    by simp
  from bulk_records_truncated [of ?up "Some ''tok''" "''app1''" "''Tasks''"
      "map (\<lambda>n. [(''Rank'', PInt n)]) [1, 2, 3, 4, 5, 6, 7, 8, 9, 10, 11]" False]
  have c: "\<exists>rq. fst (bulk_create_records ?up (Some ''tok'') ''app1'' ''Tasks''
                  (map (\<lambda>n. [(''Rank'', PInt n)]) [1, 2, 3, 4, 5, 6, 7, 8, 9, 10, 11])) = [rq]
         \<and> sent_records rq
             = map (\<lambda>n. PDict [(''fields'', PDict [(''Rank'', PInt n)])]) [1, 2, 3, 4, 5, 6, 7, 8, 9, 10]
         \<and> length (sent_records rq) = 10"
    unfolding a using t by auto
  from bulk_records_truncated [of ?up "Some ''tok''" "''app1''" "''Tasks''"
      "map (\<lambda>n. [(''id'', PInt n)]) [1, 2, 3, 4, 5, 6, 7, 8, 9, 10, 11]" False]
  have d: "\<exists>rq. fst (bulk_update_records ?up (Some ''tok'') ''app1'' ''Tasks''
                  (map (\<lambda>n. [(''id'', PInt n)]) [1, 2, 3, 4, 5, 6, 7, 8, 9, 10, 11]) False) = [rq]
         \<and> sent_records rq = map (\<lambda>n. PDict [(''id'', PInt n)]) [1, 2, 3, 4, 5, 6, 7, 8, 9, 10]
         \<and> length (sent_records rq) = 10"
    unfolding b using t by auto
  from t c d show ?thesis by blast
qed

theorem update_verb_by_replace_all_witness:
  "truthy_str (Some ''tok'')
   \<and> map req_method (fst (update_record (\<lambda>rq. Inl TransportFailure) (Some ''tok'') ''app1'' ''Tasks''
                            ''rec1'' [(''Name'', PStr ''x'')] True)) = [PUT]
   \<and> map req_method (fst (update_record (\<lambda>rq. Inl TransportFailure) (Some ''tok'') ''app1'' ''Tasks''
                            ''rec1'' [(''Name'', PStr ''x'')] False)) = [PATCH]
   \<and> map req_method (fst (bulk_update_records (\<lambda>rq. Inl TransportFailure) (Some ''tok'') ''app1'' ''Tasks''
                            [[(''id'', PStr ''rec1'')]] True)) = [PUT]
   \<and> map req_method (fst (bulk_update_records (\<lambda>rq. Inl TransportFailure) (Some ''tok'') ''app1'' ''Tasks''
                            [[(''id'', PStr ''rec1'')]] False)) = [PATCH]"
proof -
  have t: "truthy_str (Some ''tok'')" by (simp add: truthy_str_def)
  show ?thesis
    using t
      update_verb_by_replace_all [OF t, of "\<lambda>rq. Inl TransportFailure" "''app1''" "''Tasks''" "''rec1''"
        "[(''Name'', PStr ''x'')]" True "[[(''id'', PStr ''rec1'')]]"]
      update_verb_by_replace_all [OF t, of "\<lambda>rq. Inl TransportFailure" "''app1''" "''Tasks''" "''rec1''"
        "[(''Name'', PStr ''x'')]" False "[[(''id'', PStr ''rec1'')]]"]
    by simp
qed







subsection \<open>Required alternatives\<close>

lemma fst_list_comments_none:
  "fst (list_comments upstream API_TOKEN None None) =
     [Request GET (TODOIST_BASE_URL @ ''/comments'') (todoist_get_headers API_TOKEN) None
        (Some []) None]"
  by (simp add: list_comments_def list_comments_params_def truthy_str_def fst_send)

lemma fst_create_comment_none:
  "fst (create_comment upstream API_TOKEN content None None None) =
     [Request POST (TODOIST_BASE_URL @ ''/comments'') (todoist_get_headers API_TOKEN) None None
        (Some (PDict [(''content'', PStr content)]))]"
  by (simp add: create_comment_def create_comment_payload_def truthy_str_def fst_send)

text \<open>
  C7.  \<open>get_timezone\<close> and \<open>list_lists\<close> raise \<open>ValueError\<close> (the specification's
  ValidationError) and hand no request to the HTTP client when every alternative is missing:
  \<open>location\<close> unsupplied (or empty) and \<open>latitude\<close> and \<open>longitude\<close> not both supplied;
  neither \<open>folder_id\<close> nor \<open>space_id\<close> supplied (or both empty).  The Todoist operations
  \<open>list_comments\<close> and \<open>create_comment\<close>, which also ask for either \<open>task_id\<close> or
  \<open>project_id\<close>, do not: called with neither, each issues its request, without any
  identifier in the payload.
\<close>

theorem required_alternative_missing:
  "(\<not> truthy_str location \<and> (latitude = None \<or> longitude = None) \<longrightarrow>
      get_timezone upstream API_KEY location latitude longitude = ([], Inl (ValueError timezone_error)))
   \<and> (\<not> truthy_str folder_id \<and> \<not> truthy_str space_id \<longrightarrow>
      list_lists upstream API_TOKEN folder_id space_id archived = ([], Inl (ValueError list_lists_error)))
   \<and> fst (list_comments upstream TODOIST_API_TOKEN None None) =
       [Request GET (TODOIST_BASE_URL @ ''/comments'') (todoist_get_headers TODOIST_API_TOKEN) None
          (Some []) None]
   \<and> fst (create_comment upstream TODOIST_API_TOKEN content None None None) =
       [Request POST (TODOIST_BASE_URL @ ''/comments'') (todoist_get_headers TODOIST_API_TOKEN)
          None None (Some (PDict [(''content'', PStr content)]))]"
proof -
  have a: "(\<not> truthy_str location \<and> (latitude = None \<or> longitude = None) \<longrightarrow>
      get_timezone upstream API_KEY location latitude longitude = ([], Inl (ValueError timezone_error)))
   \<and> (\<not> truthy_str folder_id \<and> \<not> truthy_str space_id \<longrightarrow>
      list_lists upstream API_TOKEN folder_id space_id archived = ([], Inl (ValueError list_lists_error)))"
    by (auto simp: get_timezone_def get_timezone_params_def list_lists_def list_lists_url_def raise_def
        split: option.splits)
  from a fst_list_comments_none [of upstream TODOIST_API_TOKEN]
    fst_create_comment_none [of upstream TODOIST_API_TOKEN content]
  show ?thesis by blast
qed

theorem required_alternative_missing_witness:
  "\<not> truthy_str None \<and> get_timezone (\<lambda>rq. Inl TransportFailure) (Some ''key'') None None (Some (Finite 2))
       = ([], Inl (ValueError timezone_error))
   \<and> get_timezone (\<lambda>rq. Inl TransportFailure) (Some ''key'') None None None
       = ([], Inl (ValueError timezone_error))
   \<and> list_lists (\<lambda>rq. Inl TransportFailure) (Some ''tok'') None None False
       = ([], Inl (ValueError list_lists_error))
   \<and> length (fst (list_comments (\<lambda>rq. Inl TransportFailure) (Some ''tok'') None None)) = 1
   \<and> length (fst (create_comment (\<lambda>rq. Inl TransportFailure) (Some ''tok'') ''hello'' None None None)) = 1"
  using required_alternative_missing [of None None "Some (Finite 2)" "\<lambda>rq. Inl TransportFailure" "Some ''key''" None None "Some ''tok''" False "Some ''tok''" "''hello''"]
    required_alternative_missing [of None None None "\<lambda>rq. Inl TransportFailure" "Some ''key''" None None "Some ''tok''" False "Some ''tok''" "''hello''"]
  by (simp add: truthy_str_def)


subsection \<open>Response shaping\<close>

lemma snd_send_ok:
  "upstream rq = Inr resp \<Longrightarrow> is_success resp \<Longrightarrow> send upstream rq = ([rq], json_body resp)"
  by (simp add: send_def)

lemma attach_conversion_no_rates:
  "map_of d ''exchange_rates'' = None \<Longrightarrow> attach_conversion (PDict d) target amount = Inr (PDict d)"
  by (simp add: attach_conversion_def py_contains_def)

lemma attach_conversion_no_target:
  "map_of d ''exchange_rates'' = Some (PDict rates) \<Longrightarrow> map_of rates target = None \<Longrightarrow>
   attach_conversion (PDict d) target amount = Inr (PDict d)"
  by (simp add: attach_conversion_def py_contains_def py_getitem_def)

lemma attach_conversion_float:
  "map_of d ''exchange_rates'' = Some (PDict rates) \<Longrightarrow> map_of rates target = Some (PFloat r) \<Longrightarrow>
   attach_conversion (PDict d) target amount =
     Inr (PDict (AList.update ''amount'' (PFloat amount)
            (AList.update ''converted_amount'' (PFloat (float_mul amount r)) d)))"
  by (simp add: attach_conversion_def py_contains_def py_getitem_def float_times_def py_setitem_def)

lemma float_mul_100_09: "float_mul (Finite 100) (round_double (9 / 10)) = Finite 90"
  by code_simp

text \<open>
  C4.  Let the upstream answer the request of \<open>convert_currency\<close> with a 2xx status and a
  JSON object.  One request is issued.  When the object has no \<open>exchange_rates\<close> key, or its
  \<open>exchange_rates\<close> table has no entry for the target, the object is returned unchanged (no
  \<open>converted_amount\<close> is added).  When the table holds a float rate for the target, the
  result is the object with \<open>converted_amount = amount * rate\<close> (binary64 multiplication) and
  \<open>amount\<close> set; for the rate \<open>0.9\<close> under \<open>EUR\<close> and the amount \<open>100\<close> this gives
  \<open>converted_amount = 90.0\<close> and \<open>amount = 100\<close>.
\<close>

theorem convert_currency_shaping:
  assumes "upstream (convert_currency_request API_KEY base target date) = Inr resp"
    and "is_success resp"
    and "json_body resp = Inr (PDict d)"
  shows "fst (convert_currency upstream API_KEY base target amount date)
           = [convert_currency_request API_KEY base target date]
    \<and> (map_of d ''exchange_rates'' = None \<longrightarrow>
          snd (convert_currency upstream API_KEY base target amount date) = Inr (PDict d))
    \<and> (map_of d ''exchange_rates'' = Some (PDict rates) \<and> map_of rates target = None \<longrightarrow>
          snd (convert_currency upstream API_KEY base target amount date) = Inr (PDict d))
    \<and> (map_of d ''exchange_rates'' = Some (PDict rates) \<and> map_of rates target = Some (PFloat rate) \<longrightarrow>
          (\<exists>d'. snd (convert_currency upstream API_KEY base target amount date) = Inr (PDict d')
             \<and> d' = AList.update ''amount'' (PFloat amount)
                      (AList.update ''converted_amount'' (PFloat (float_mul amount rate)) d)
             \<and> map_of d' ''converted_amount'' = Some (PFloat (float_mul amount rate))
             \<and> map_of d' ''amount'' = Some (PFloat amount)))
    \<and> (target = ''EUR'' \<and> amount = Finite 100
        \<and> map_of d ''exchange_rates'' = Some (PDict rates)
        \<and> map_of rates ''EUR'' = Some (PFloat (round_double (9 / 10))) \<longrightarrow>
          (\<exists>d'. snd (convert_currency upstream API_KEY base target amount date) = Inr (PDict d')
             \<and> map_of d' ''converted_amount'' = Some (PFloat (Finite 90))
             \<and> map_of d' ''amount'' = Some (PFloat (Finite 100))))"
proof -
  have cc: "convert_currency upstream API_KEY base target amount date
      = ([convert_currency_request API_KEY base target date], attach_conversion (PDict d) target amount)"
    using snd_send_ok [of upstream "convert_currency_request API_KEY base target date" resp, OF assms(1,2)]
    by (simp add: convert_currency_def assms(3))
  have 1: "fst (convert_currency upstream API_KEY base target amount date)
           = [convert_currency_request API_KEY base target date]"
    by (simp add: cc)
  have 2: "map_of d ''exchange_rates'' = None \<longrightarrow>
          snd (convert_currency upstream API_KEY base target amount date) = Inr (PDict d)"
    by (simp add: cc attach_conversion_no_rates)
  have 3: "map_of d ''exchange_rates'' = Some (PDict rates) \<and> map_of rates target = None \<longrightarrow>
          snd (convert_currency upstream API_KEY base target amount date) = Inr (PDict d)"
    by (simp add: cc attach_conversion_no_target)
  have 4: "map_of d ''exchange_rates'' = Some (PDict rates) \<and> map_of rates target = Some (PFloat rate) \<longrightarrow>
          (\<exists>d'. snd (convert_currency upstream API_KEY base target amount date) = Inr (PDict d')
             \<and> d' = AList.update ''amount'' (PFloat amount)
                      (AList.update ''converted_amount'' (PFloat (float_mul amount rate)) d)
             \<and> map_of d' ''converted_amount'' = Some (PFloat (float_mul amount rate))
             \<and> map_of d' ''amount'' = Some (PFloat amount))"
    by (simp add: cc attach_conversion_float AList.update_conv')
  have 5: "target = ''EUR'' \<and> amount = Finite 100
        \<and> map_of d ''exchange_rates'' = Some (PDict rates)
        \<and> map_of rates ''EUR'' = Some (PFloat (round_double (9 / 10))) \<longrightarrow>
          (\<exists>d'. snd (convert_currency upstream API_KEY base target amount date) = Inr (PDict d')
             \<and> map_of d' ''converted_amount'' = Some (PFloat (Finite 90))
             \<and> map_of d' ''amount'' = Some (PFloat (Finite 100)))"
  proof (intro impI, elim conjE)
    assume h: "target = ''EUR''" "amount = Finite 100"
      "map_of d ''exchange_rates'' = Some (PDict rates)"
      "map_of rates ''EUR'' = Some (PFloat (round_double (9 / 10)))"
    have "attach_conversion (PDict d) ''EUR'' (Finite 100) =
       Inr (PDict (AList.update ''amount'' (PFloat (Finite 100))
            (AList.update ''converted_amount'' (PFloat (Finite 90)) d)))"
      using attach_conversion_float [OF h(3,4), of "Finite 100"] by (simp only: float_mul_100_09)
    with cc show "\<exists>d'. snd (convert_currency upstream API_KEY base target amount date) = Inr (PDict d')
             \<and> map_of d' ''converted_amount'' = Some (PFloat (Finite 90))
             \<and> map_of d' ''amount'' = Some (PFloat (Finite 100))"
      unfolding h(1,2) by (simp add: AList.update_conv')
  qed
  from 1 2 3 4 5 show ?thesis by blast
qed

theorem convert_currency_shaping_witness:
  "is_success (Response 200 (Inr (PDict [(''exchange_rates'', PDict [(''EUR'', PFloat (round_double (9 / 10)))])])))
   \<and> (\<exists>d'. snd (convert_currency
                 (\<lambda>rq. Inr (Response 200 (Inr (PDict [(''exchange_rates'',
                                 PDict [(''EUR'', PFloat (round_double (9 / 10)))])]))))
                 (Some ''key'') ''USD'' ''EUR'' (Finite 100) None) = Inr (PDict d')
         \<and> map_of d' ''converted_amount'' = Some (PFloat (Finite 90))
         \<and> map_of d' ''amount'' = Some (PFloat (Finite 100)))
   \<and> snd (convert_currency
             (\<lambda>rq. Inr (Response 200 (Inr (PDict [(''exchange_rates'',
                             PDict [(''GBP'', PFloat (round_double (8 / 10)))])]))))
             (Some ''key'') ''USD'' ''EUR'' (Finite 100) None)
       = Inr (PDict [(''exchange_rates'', PDict [(''GBP'', PFloat (round_double (8 / 10)))])])
   \<and> snd (convert_currency
             (\<lambda>rq. Inr (Response 200 (Inr (PDict [(''error'', PStr ''quota'')]))))
             (Some ''key'') ''USD'' ''EUR'' (Finite 100) None)
       = Inr (PDict [(''error'', PStr ''quota'')])"
proof -
  let ?eur = "PDict [(''exchange_rates'', PDict [(''EUR'', PFloat (round_double (9 / 10)))])]"
  let ?gbp = "PDict [(''exchange_rates'', PDict [(''GBP'', PFloat (round_double (8 / 10)))])]"
  let ?err = "PDict [(''error'', PStr ''quota'')]"
  have ok: "is_success (Response 200 b)" for b
    by (simp add: is_success_def)
  note a = convert_currency_shaping [of "\<lambda>rq. Inr (Response 200 (Inr ?eur))" "Some ''key''" "''USD''" "''EUR''"
      None "Response 200 (Inr ?eur)" "[(''exchange_rates'', PDict [(''EUR'', PFloat (round_double (9 / 10)))])]"
      "Finite 100" "[(''EUR'', PFloat (round_double (9 / 10)))]" "round_double (9 / 10)",
      OF refl ok]
  note b = convert_currency_shaping [of "\<lambda>rq. Inr (Response 200 (Inr ?gbp))" "Some ''key''" "''USD''" "''EUR''"
      None "Response 200 (Inr ?gbp)" "[(''exchange_rates'', PDict [(''GBP'', PFloat (round_double (8 / 10)))])]"
      "Finite 100" "[(''GBP'', PFloat (round_double (8 / 10)))]" "round_double (9 / 10)",
      OF refl ok]
  note c = convert_currency_shaping [of "\<lambda>rq. Inr (Response 200 (Inr ?err))" "Some ''key''" "''USD''" "''EUR''"
      None "Response 200 (Inr ?err)" "[(''error'', PStr ''quota'')]"
      "Finite 100" "[]" "round_double (9 / 10)",
      OF refl ok]
  have 1: "\<exists>d'. snd (convert_currency (\<lambda>rq. Inr (Response 200 (Inr ?eur)))
                 (Some ''key'') ''USD'' ''EUR'' (Finite 100) None) = Inr (PDict d')
         \<and> map_of d' ''converted_amount'' = Some (PFloat (Finite 90))
         \<and> map_of d' ''amount'' = Some (PFloat (Finite 100))"
    using a by (simp add: float_mul_100_09)
  have 2: "snd (convert_currency (\<lambda>rq. Inr (Response 200 (Inr ?gbp)))
             (Some ''key'') ''USD'' ''EUR'' (Finite 100) None) = Inr ?gbp"
    using b by simp
  have 3: "snd (convert_currency (\<lambda>rq. Inr (Response 200 (Inr ?err)))
             (Some ''key'') ''USD'' ''EUR'' (Finite 100) None) = Inr ?err"
    using c by simp
  from ok 1 2 3 show ?thesis by blast
qed

lemma collect_text_dicts:
  "\<forall>b \<in> set blocks. \<exists>bd. b = PDict bd \<Longrightarrow>
   collect_text blocks acc =
     Inr (acc @ map (\<lambda>b. case b of PDict bd \<Rightarrow> (case map_of bd ''text'' of None \<Rightarrow> PStr [] | Some v \<Rightarrow> v)
                         | _ \<Rightarrow> PNone)
                  (filter is_text_block blocks))"
proof (induction blocks arbitrary: acc)
  case Nil
  then show ?case by simp
next
  case (Cons b blocks)
  then obtain bd where b: "b = PDict bd" by auto
  from Cons have IH: "\<And>acc. collect_text blocks acc =
     Inr (acc @ map (\<lambda>b. case b of PDict bd \<Rightarrow> (case map_of bd ''text'' of None \<Rightarrow> PStr [] | Some v \<Rightarrow> v)
                         | _ \<Rightarrow> PNone)
                  (filter is_text_block blocks))" by simp
  show ?case
  proof (cases "map_of bd ''type'' = Some (PStr ''text'')")
    case True
    then have tb: "is_text_block (PDict bd)" by (simp add: is_text_block_def)
    with True show ?thesis
      by (simp add: b IH py_get_def)
  next
    case False
    then have "(case map_of bd ''type'' of None \<Rightarrow> PNone | Some x \<Rightarrow> x) \<noteq> PStr ''text''"
      by (auto split: option.splits)
    moreover from False have "\<not> is_text_block (PDict bd)" by (simp add: is_text_block_def)
    ultimately show ?thesis
      by (simp add: b IH py_get_def)
  qed
qed

lemma str_items_text_fields:
  "\<forall>b \<in> set bs. \<exists>bd. b = PDict bd \<and> (map_of bd ''text'' = None \<or> (\<exists>s. map_of bd ''text'' = Some (PStr s))) \<Longrightarrow>
   str_items (map (\<lambda>b. case b of PDict bd \<Rightarrow> (case map_of bd ''text'' of None \<Rightarrow> PStr [] | Some v \<Rightarrow> v)
                         | _ \<Rightarrow> PNone) bs)
     = Inr (map text_field bs)"
proof (induction bs)
  case Nil
  then show ?case by simp
next
  case (Cons b bs)
  then obtain bd where b: "b = PDict bd"
    and t: "map_of bd ''text'' = None \<or> (\<exists>s. map_of bd ''text'' = Some (PStr s))" by auto
  from Cons have IH: "str_items (map (\<lambda>b. case b of PDict bd \<Rightarrow> (case map_of bd ''text'' of None \<Rightarrow> PStr [] | Some v \<Rightarrow> v)
                         | _ \<Rightarrow> PNone) bs) = Inr (map text_field bs)" by simp
  from t show ?case
  proof
    assume "map_of bd ''text'' = None"
    then show ?thesis by (simp add: b IH text_field_def)
  next
    assume "\<exists>s. map_of bd ''text'' = Some (PStr s)"
    then obtain s where "map_of bd ''text'' = Some (PStr s)" ..
    then show ?thesis by (simp add: b IH text_field_def)
  qed
qed

lemma extract_text_spec:
  assumes "map_of d ''content'' = Some (PList blocks)"
    and "\<forall>b \<in> set blocks. \<exists>bd. b = PDict bd \<and>
           (is_text_block b \<longrightarrow> map_of bd ''text'' = None \<or> (\<exists>s. map_of bd ''text'' = Some (PStr s)))"
  shows "extract_text (PDict d) = Inr (spec_simplified_text blocks)"
proof -
  have dicts: "\<forall>b \<in> set blocks. \<exists>bd. b = PDict bd"
    using assms(2) by blast
  have texts: "\<forall>b \<in> set (filter is_text_block blocks). \<exists>bd. b = PDict bd \<and>
      (map_of bd ''text'' = None \<or> (\<exists>s. map_of bd ''text'' = Some (PStr s)))"
    using assms(2) by auto
  show ?thesis
    using collect_text_dicts [OF dicts, of "[]"] str_items_text_fields [OF texts]
    by (simp add: extract_text_def py_get_def py_iter_def assms(1) py_join_def spec_simplified_text_def)
qed

lemma chat_mocked:
  assumes "\<And>rq. upstream rq = Inr resp" and "is_success resp"
  shows "snd (chat upstream ANTHROPIC_API_KEY prompt model max_tokens system temperature)
     = (case json_body resp of Inl e \<Rightarrow> Inl e | Inr result \<Rightarrow> extract_text result)"
    and "length (fst (chat upstream ANTHROPIC_API_KEY prompt model max_tokens system temperature)) = 1"
  using assms by (simp_all add: chat_def make_claude_request_def send_def split: sum.splits)

text \<open>
  C6.  Let the upstream answer the request of \<open>chat\<close> with a 2xx status and a JSON object
  whose \<open>content\<close> is a list of blocks.  For the blocks
  \<open>[{"type":"text","text":"A"}, {"type":"image",...}, {"type":"text","text":"B"}]\<close> the
  result is the string \<open>A\<newline>B\<close>, whatever else the image block holds.  In general, when
  every block is an object and the \<open>text\<close> of every text block is a string (or missing, read
  as the empty string), the result is the text of the blocks of type \<open>text\<close>, in order, joined
  by one newline.
\<close>

theorem chat_returns_joined_text:
  assumes "\<And>rq. upstream rq = Inr resp"
    and "is_success resp"
    and "json_body resp = Inr (PDict d)"
    and "map_of d ''content'' = Some (PList blocks)"
  shows "(blocks = [PDict [(''type'', PStr ''text''), (''text'', PStr ''A'')],
                    PDict ((''type'', PStr ''image'') # image_rest),
                    PDict [(''type'', PStr ''text''), (''text'', PStr ''B'')]] \<longrightarrow>
           snd (chat upstream ANTHROPIC_API_KEY prompt model max_tokens system temperature)
             = Inr ''A\<newline>B'')
     \<and> ((\<forall>b \<in> set blocks. \<exists>bd. b = PDict bd \<and>
            (is_text_block b \<longrightarrow> map_of bd ''text'' = None \<or> (\<exists>s. map_of bd ''text'' = Some (PStr s)))) \<longrightarrow>
           snd (chat upstream ANTHROPIC_API_KEY prompt model max_tokens system temperature)
             = Inr (spec_simplified_text blocks)
           \<and> spec_simplified_text blocks
             = join_strs ''\<newline>'' (map text_field (filter is_text_block blocks)))"
proof -
  have c: "snd (chat upstream ANTHROPIC_API_KEY prompt model max_tokens system temperature)
      = extract_text (PDict d)"
    using chat_mocked(1) [of upstream resp, OF assms(1,2)] by (simp add: assms(3))
  have gen: "(\<forall>b \<in> set blocks. \<exists>bd. b = PDict bd \<and>
            (is_text_block b \<longrightarrow> map_of bd ''text'' = None \<or> (\<exists>s. map_of bd ''text'' = Some (PStr s)))) \<longrightarrow>
           snd (chat upstream ANTHROPIC_API_KEY prompt model max_tokens system temperature)
             = Inr (spec_simplified_text blocks)
           \<and> spec_simplified_text blocks
             = join_strs ''\<newline>'' (map text_field (filter is_text_block blocks))"
    using extract_text_spec [OF assms(4)] by (simp add: c spec_simplified_text_def)
  have ex: "blocks = [PDict [(''type'', PStr ''text''), (''text'', PStr ''A'')],
                    PDict ((''type'', PStr ''image'') # image_rest),
                    PDict [(''type'', PStr ''text''), (''text'', PStr ''B'')]] \<longrightarrow>
           snd (chat upstream ANTHROPIC_API_KEY prompt model max_tokens system temperature)
             = Inr ''A\<newline>B''"
  proof
    assume b: "blocks = [PDict [(''type'', PStr ''text''), (''text'', PStr ''A'')],
                    PDict ((''type'', PStr ''image'') # image_rest),
                    PDict [(''type'', PStr ''text''), (''text'', PStr ''B'')]]"
    have "extract_text (PDict d) = Inr ''A\<newline>B''"
      by (simp add: extract_text_def py_get_def py_iter_def assms(4) b py_join_def)
    then show "snd (chat upstream ANTHROPIC_API_KEY prompt model max_tokens system temperature)
             = Inr ''A\<newline>B''" by (simp add: c)
  qed
  from ex gen show ?thesis by blast
qed

theorem chat_returns_joined_text_witness:
  "is_success (Response 200 (Inr (PDict [(''content'', PList
        [PDict [(''type'', PStr ''text''), (''text'', PStr ''A'')],
         PDict [(''type'', PStr ''image''), (''source'', PDict [(''type'', PStr ''base64'')])],
         PDict [(''type'', PStr ''text''), (''text'', PStr ''B'')]])])))
   \<and> snd (chat (\<lambda>rq. Inr (Response 200 (Inr (PDict [(''content'', PList
        [PDict [(''type'', PStr ''text''), (''text'', PStr ''A'')],
         PDict [(''type'', PStr ''image''), (''source'', PDict [(''type'', PStr ''base64'')])],
         PDict [(''type'', PStr ''text''), (''text'', PStr ''B'')]])]))))
        ''sk-key'' ''Hello'' ''claude-3-5-sonnet-20241022'' 4096 None None) = Inr ''A\<newline>B''
   \<and> spec_simplified_text
        [PDict [(''type'', PStr ''text''), (''text'', PStr ''A'')],
         PDict [(''type'', PStr ''image''), (''source'', PDict [(''type'', PStr ''base64'')])],
         PDict [(''type'', PStr ''text''), (''text'', PStr ''B'')]] = ''A\<newline>B''"
proof -
  let ?blocks = "[PDict [(''type'', PStr ''text''), (''text'', PStr ''A'')],
         PDict [(''type'', PStr ''image''), (''source'', PDict [(''type'', PStr ''base64'')])],
         PDict [(''type'', PStr ''text''), (''text'', PStr ''B'')]]"
  let ?resp = "Response 200 (Inr (PDict [(''content'', PList ?blocks)]))"
  have ok: "is_success ?resp" by (simp add: is_success_def)
  have sp: "spec_simplified_text ?blocks = ''A\<newline>B''"
    by (simp add: spec_simplified_text_def is_text_block_def text_field_def)
  note t = chat_returns_joined_text [of "\<lambda>rq. Inr ?resp" ?resp "[(''content'', PList ?blocks)]" ?blocks
      "[(''source'', PDict [(''type'', PStr ''base64'')])]" "''sk-key''" "''Hello''"
      "''claude-3-5-sonnet-20241022''" 4096 None None, OF refl ok]
  have "snd (chat (\<lambda>rq. Inr ?resp) ''sk-key'' ''Hello'' ''claude-3-5-sonnet-20241022'' 4096 None None)
      = Inr ''A\<newline>B''"
    using t by simp
  with ok sp show ?thesis by blast
qed

end
